theory Spec2Isabelle
  imports Complex_Main "HOL-Library.Sublist"
begin

section \<open>The recognizer of nlp.js for the Microsoft Bot Framework\<close>

text \<open>
  A shallow embedding of \<^verbatim>\<open>src/lib/recognizer/recognizer.js\<close>. The class
  \<^verbatim>\<open>Recognizer\<close> talks to three collaborators whose code is not part of the file:
  the NLP manager (the recognition engine), the conversation context store and the
  bot framework session. They are parameters of the model. Every call that the
  recognizer makes to one of them is recorded, in order, in a list of events, so
  that "no call is made" and "the store receives this context" are statements
  about that list. Context objects live in a heap: the recognizer writes into the
  object that the store has resolved with, and a store may keep that very object.
\<close>

subsection \<open>JavaScript values and context objects\<close>

text \<open>
  The values that the recognizer stores in a context or tests for truthiness:
  \<^verbatim>\<open>undefined\<close>, \<^verbatim>\<open>null\<close>, booleans, numbers and strings.
\<close>

datatype jsval = JUndefined | JNull | JBool bool | JNum rat | JStr string

fun truthy :: "jsval \<Rightarrow> bool" where
  "truthy JUndefined = False"
| "truthy JNull = False"
| "truthy (JBool b) = b"
| "truthy (JNum n) = (n \<noteq> 0)"
| "truthy (JStr s) = (s \<noteq> [])"

text \<open>
  A context is an ordinary object: its own properties, a map from names to values,
  and its prototype, which is \<^verbatim>\<open>Object.prototype\<close> (\<open>plain\<close>) or \<^verbatim>\<open>null\<close>. The reserved
  properties \<^verbatim>\<open>dialogId\<close> and \<^verbatim>\<open>$modified\<close> live in the same object as the entity
  names. \<^verbatim>\<open>{}\<close> is the plain object without own properties.
\<close>

record context' =
  props :: "string \<rightharpoonup> jsval"
  plain :: bool

definition emptyObject :: "context'" where
  "emptyObject = \<lparr>props = Map.empty, plain = True\<rparr>"

text \<open>
  Reading \<^verbatim>\<open>c[k]\<close> for a name that \<^verbatim>\<open>Object.prototype\<close> does not define: the own
  property, or \<^verbatim>\<open>undefined\<close>.
\<close>

definition lookup :: "context' \<Rightarrow> string \<Rightarrow> jsval" where
  "lookup c k = (case props c k of None \<Rightarrow> JUndefined | Some v \<Rightarrow> v)"

text \<open>
  The assignment \<^verbatim>\<open>c[k] = v\<close>. It creates or updates an own property, except for the
  name \<^verbatim>\<open>__proto__\<close> on a plain object that has no own property of that name: there
  the setter of \<^verbatim>\<open>Object.prototype\<close> runs, which removes the prototype when the value
  is \<^verbatim>\<open>null\<close> and does nothing for any other value that is not an object.
\<close>

definition setProperty :: "context' \<Rightarrow> string \<Rightarrow> jsval \<Rightarrow> context'" where
  "setProperty c k v =
     (if k = ''__proto__'' \<and> props c k = None \<and> plain c
      then (if v = JNull then c\<lparr>plain := False\<rparr> else c)
      else c\<lparr>props := (props c)(k \<mapsto> v)\<rparr>)"

text \<open>\<^verbatim>\<open>delete c[k]\<close> removes the own property.\<close>

definition deleteProperty :: "context' \<Rightarrow> string \<Rightarrow> context'" where
  "deleteProperty c k = c\<lparr>props := (props c)(k := None)\<rparr>"

text \<open>
  The heap holds the context objects. A reference is an address; \<open>nextRef\<close> is the
  address that the next \<^verbatim>\<open>{}\<close> gets, above every address that is in use.
\<close>

type_synonym ref = nat

record heap =
  cells :: "ref \<Rightarrow> context'"
  nextRef :: ref

definition alloc :: "heap \<Rightarrow> ref \<times> heap" where
  "alloc h = (nextRef h, \<lparr>cells = (cells h)(nextRef h := emptyObject), nextRef = Suc (nextRef h)\<rparr>)"

definition update :: "heap \<Rightarrow> ref \<Rightarrow> context' \<Rightarrow> heap" where
  "update h a c = h\<lparr>cells := (cells h)(a := c)\<rparr>"

subsection \<open>Results of the engine, sessions, events\<close>

record entity =
  entity :: string
  option :: jsval

text \<open>
  A field that the object does not have is \<open>None\<close>: the result that \<^verbatim>\<open>recognize\<close>
  builds for a turn without text has neither \<^verbatim>\<open>entities\<close> nor \<^verbatim>\<open>answer\<close>, and its
  \<^verbatim>\<open>intent\<close> is \<^verbatim>\<open>undefined\<close>.
\<close>

record response =
  score :: rat
  intent :: "string option"
  entities :: "entity list option"
  answer :: "string option"

record message =
  text' :: "string option"

record session =
  message :: "message option"
  locale' :: "string option"
  dialogStack :: "string list option"

datatype error = Rejected | TypeError

text \<open>
  An argument of a call to the engine: a value, or the reference to the context
  object together with what the object holds at the time of the call.
\<close>

datatype arg = AVal jsval | ACtx ref "context'"

record route =
  routeScore :: rat
  libraryName :: string

text \<open>What a callback does with the session of the bot framework.\<close>

datatype action =
    BeginDialog string
  | Send string
  | SelectRoute string route
  | RouteToActiveDialog

text \<open>
  \<open>SetContext\<close> is the call \<^verbatim>\<open>setConversationContext(session, context)\<close>: the reference
  it passes and what the object holds at that time.
\<close>

datatype event =
    GetContext session
  | EngineCall "arg list"
  | SetContext session ref "context'"
  | Callback response
  | Host action
  | Unhandled error

text \<open>The engine reads the context it is given and does not write to it.\<close>

type_synonym engine = "arg list \<Rightarrow> error + response"

text \<open>
  The store has a state of its own. \<^verbatim>\<open>getConversationContext\<close> resolves with the
  reference to a context object or rejects; \<^verbatim>\<open>setConversationContext\<close> resolves
  (\<open>True\<close>) or rejects (\<open>False\<close>). Both may change the state of the store and the
  heap.
\<close>

record 'st store =
  getConversationContext :: "'st \<Rightarrow> heap \<Rightarrow> session \<Rightarrow> (error + ref) \<times> 'st \<times> heap"
  setConversationContext :: "'st \<Rightarrow> heap \<Rightarrow> session \<Rightarrow> ref \<Rightarrow> bool \<times> 'st \<times> heap"

record 'st recognizer =
  nlpManager :: engine
  threshold :: rat
  conversationContext :: "'st store"
  onBeginRouting :: "(session \<Rightarrow> bool) option"
  onRecognizedRouting :: "(session \<Rightarrow> response \<Rightarrow> bool) option"
  onUnrecognizedRouting :: "(session \<Rightarrow> response \<Rightarrow> bool) option"
  onNoTextRouting :: "(session \<Rightarrow> bool) option"

subsection \<open>process\<close>

text \<open>The intent that the engine reports when no intent matches.\<close>

definition noneIntent :: string where
  "noneIntent = ''None''"

definition modifiedKey :: string where
  "modifiedKey = ''$modified''"

text \<open>
  The loop of \<^verbatim>\<open>process\<close> over \<^verbatim>\<open>response.entities\<close>: each round assigns the option
  to the property named by the entity and then sets the marker.
\<close>

fun mergeEntities :: "entity list \<Rightarrow> context' \<Rightarrow> context'" where
  "mergeEntities [] c = c"
| "mergeEntities (e # es) c =
     mergeEntities es (setProperty (setProperty c (entity e) (option e)) modifiedKey (JBool True))"

text \<open>
  The arguments of the call to the engine. \<^verbatim>\<open>locale ? ... : ...\<close> tests the locale for
  truthiness: an absent locale and the empty string take the second form.
\<close>

definition engineArgs :: "string option \<Rightarrow> string \<Rightarrow> ref \<Rightarrow> context' \<Rightarrow> arg list" where
  "engineArgs loc utterance a c =
     (case loc of
        None \<Rightarrow> [AVal (JStr utterance), AVal JUndefined, ACtx a c]
      | Some l \<Rightarrow>
          if l \<noteq> [] then [AVal (JStr l), AVal (JStr utterance), ACtx a c]
          else [AVal (JStr utterance), AVal JUndefined, ACtx a c])"

text \<open>\<^verbatim>\<open>srcContext || {}\<close>: a fresh empty object when no context is given.\<close>

definition orEmpty :: "heap \<Rightarrow> ref option \<Rightarrow> ref \<times> heap" where
  "orEmpty h srcContext = (case srcContext of None \<Rightarrow> alloc h | Some a \<Rightarrow> (a, h))"

text \<open>
  \<^verbatim>\<open>process\<close> returns the events it caused, the heap as it has left it, and either
  the error that rejects its promise or the response together with the reference
  to the context object it has worked on. The entities are written into that
  object in place. Reading \<^verbatim>\<open>response.entities.length\<close> of a response without
  entities throws.
\<close>

definition process ::
  "'st recognizer \<Rightarrow> heap \<Rightarrow> ref option \<Rightarrow> string option \<Rightarrow> string
     \<Rightarrow> event list \<times> heap \<times> (error + response \<times> ref)" where
  "process self h srcContext loc utterance =
     (let a = fst (orEmpty h srcContext);
          h0 = snd (orEmpty h srcContext);
          args = engineArgs loc utterance a (cells h0 a)
      in ([EngineCall args],
          (case nlpManager self args of
             Inl e \<Rightarrow> (h0, Inl e)
           | Inr r \<Rightarrow>
               if score r < threshold self \<or> intent r = Some noneIntent
               then (h0, Inr (r\<lparr>answer := None\<rparr>, a))
               else (case entities r of
                       None \<Rightarrow> (h0, Inl TypeError)
                     | Some es \<Rightarrow>
                         (update h0 a (mergeEntities es (cells h0 a)), Inr (r, a))))))"

subsection \<open>getDialogId\<close>

text \<open>The loop of \<^verbatim>\<open>getDialogId\<close> over the stack, from index 0.\<close>

fun scanStack :: "string list \<Rightarrow> string" where
  "scanStack [] = []"
| "scanStack (dialogId # rest) =
     (if prefix ''*:'' dialogId then drop 2 dialogId else scanStack rest)"

definition getDialogId :: "session \<Rightarrow> string" where
  "getDialogId s =
     (case dialogStack s of None \<Rightarrow> [] | Some stack \<Rightarrow> scanStack stack)"

subsection \<open>recognize\<close>

text \<open>
  The callback \<^verbatim>\<open>cb(null, result)\<close> either throws or returns after some actions on the
  session. \<open>deliver\<close> is the call itself, \<open>escaping\<close> the exception that the call
  leaves to a place where nothing handles it.
\<close>

type_synonym callback = "response \<Rightarrow> error + action list"

definition deliver :: "callback \<Rightarrow> response \<Rightarrow> event list" where
  "deliver cb r = Callback r # (case cb r of Inl e \<Rightarrow> [] | Inr acts \<Rightarrow> map Host acts)"

definition escaping :: "callback \<Rightarrow> response \<Rightarrow> event list" where
  "escaping cb r = (case cb r of Inl e \<Rightarrow> [Unhandled e] | Inr acts \<Rightarrow> [])"

text \<open>
  The test \<^verbatim>\<open>session.message && session.message.text\<close>: the text of the message when
  there is one and it is not the empty string.
\<close>

definition messageText :: "session \<Rightarrow> string option" where
  "messageText s =
     (case message s of
        None \<Rightarrow> None
      | Some m \<Rightarrow>
          (case text' m of
             None \<Rightarrow> None
           | Some t \<Rightarrow> if t = [] then None else Some t))"

text \<open>
  The handler of \<^verbatim>\<open>.catch\<close> at the end of the chain in \<^verbatim>\<open>recognize\<close>: it runs when
  the load rejects and when the handler of \<^verbatim>\<open>.then\<close> rejects. It passes a new \<^verbatim>\<open>{}\<close>
  to \<^verbatim>\<open>process\<close>.
\<close>

definition onRejected ::
  "'st recognizer \<Rightarrow> heap \<Rightarrow> string option \<Rightarrow> string \<Rightarrow> callback \<Rightarrow> event list \<times> heap" where
  "onRejected self h loc utterance cb =
     (case process self (snd (alloc h)) (Some (fst (alloc h))) loc utterance of
        (evs, h1, Inl e) \<Rightarrow> (evs @ [Unhandled e], h1)
      | (evs, h1, Inr (processResult, a)) \<Rightarrow>
          (evs @ deliver cb processResult @ escaping cb processResult, h1))"

text \<open>
  The handler of \<^verbatim>\<open>.then\<close>: it runs when the load resolves with the reference
  \<open>srcContext\<close>. \<^verbatim>\<open>const context = srcContext\<close> copies the reference, not the object:
  \<^verbatim>\<open>dialogId\<close> is written into the object of the store, \<^verbatim>\<open>process\<close> works on it and
  the marker is deleted from it. The chain that starts at
  \<^verbatim>\<open>setConversationContext\<close> is not returned, so what happens in it never reaches the
  outer \<^verbatim>\<open>.catch\<close>; there the callback that throws after a save that resolved is
  called once more by the inner \<^verbatim>\<open>.catch\<close>.
\<close>

definition onResolved ::
  "'st recognizer \<Rightarrow> 'st \<Rightarrow> heap \<Rightarrow> session \<Rightarrow> string option \<Rightarrow> string \<Rightarrow> callback \<Rightarrow> ref
     \<Rightarrow> event list \<times> 'st \<times> heap" where
  "onResolved self st h s loc utterance cb srcContext =
     (let h0 = update h srcContext
                 (setProperty (cells h srcContext) ''dialogId'' (JStr (getDialogId s))) in
      case process self h0 (Some srcContext) loc utterance of
        (evs, h1, Inl e) \<Rightarrow>
          (evs @ fst (onRejected self h1 loc utterance cb), st,
           snd (onRejected self h1 loc utterance cb))
      | (evs, h1, Inr (processResult, a)) \<Rightarrow>
          if truthy (lookup (cells h1 srcContext) modifiedKey)
          then (let h2 = update h1 srcContext (deleteProperty (cells h1 srcContext) modifiedKey) in
                case setConversationContext (conversationContext self) st h2 s srcContext of
                  (saved, st', h3) \<Rightarrow>
                    (evs @ [SetContext s srcContext (cells h2 srcContext)] @
                       (if saved
                        then (case cb processResult of
                                Inr acts \<Rightarrow> deliver cb processResult
                              | Inl e \<Rightarrow>
                                  deliver cb processResult @ deliver cb processResult
                                    @ escaping cb processResult)
                        else deliver cb processResult @ escaping cb processResult),
                     st', h3))
          else (case cb processResult of
                  Inr acts \<Rightarrow> (evs @ deliver cb processResult, st, h1)
                | Inl e \<Rightarrow>
                    (evs @ deliver cb processResult @ fst (onRejected self h1 loc utterance cb),
                     st, snd (onRejected self h1 loc utterance cb))))"

text \<open>
  \<^verbatim>\<open>recognize\<close> starts from a state of the store and a heap and returns the events,
  the state of the store and the heap at the end of the turn.
\<close>

definition recognize ::
  "'st recognizer \<Rightarrow> 'st \<Rightarrow> heap \<Rightarrow> session option \<Rightarrow> callback \<Rightarrow> event list \<times> 'st \<times> heap" where
  "recognize self st h sessionOpt cb =
     (let result = \<lparr>score = 0, intent = None, entities = None, answer = None\<rparr>;
          noText = (deliver cb result @ escaping cb result, st, h)
      in case sessionOpt of
           None \<Rightarrow> noText
         | Some s \<Rightarrow>
             (case messageText s of
                None \<Rightarrow> noText
              | Some utterance \<Rightarrow>
                  (case getConversationContext (conversationContext self) st h s of
                     (Inr srcContext, st1, h1) \<Rightarrow>
                       (case onResolved self st1 h1 s (locale' s) utterance cb srcContext of
                          (evs, st2, h2) \<Rightarrow> (GetContext s # evs, st2, h2))
                   | (Inl e, st1, h1) \<Rightarrow>
                       (GetContext s # fst (onRejected self h1 (locale' s) utterance cb), st1,
                        snd (onRejected self h1 (locale' s) utterance cb)))))"

text \<open>A callback that only receives the result.\<close>

definition receive :: callback where
  "receive r = Inr []"

subsection \<open>Routing\<close>

record bot =
  bestRouteResult :: "route list \<Rightarrow> string list \<Rightarrow> string \<Rightarrow> route option"
  name :: string

text \<open>\<^verbatim>\<open>session.dialogStack()\<close> throws when the session has no such method.\<close>

definition defaultRouting :: "bot \<Rightarrow> session \<Rightarrow> route list \<Rightarrow> error + action list" where
  "defaultRouting b s results =
     (case dialogStack s of
        None \<Rightarrow> Inl TypeError
      | Some stack \<Rightarrow>
          (case bestRouteResult b results stack (name b) of
             Some r \<Rightarrow> Inr [SelectRoute (libraryName r) r]
           | None \<Rightarrow> Inr [RouteToActiveDialog]))"

definition processAnswer :: "session \<Rightarrow> string \<Rightarrow> action list" where
  "processAnswer s a =
     (case a of
        [] \<Rightarrow> [Send a]
      | ch # rest \<Rightarrow> if ch = CHR ''/'' then [BeginDialog a] else [Send a])"

text \<open>\<^verbatim>\<open>self.hook && !self.hook(...)\<close>: the hook is there and returns a falsy value.\<close>

definition vetoes :: "(session \<Rightarrow> bool) option \<Rightarrow> session \<Rightarrow> bool" where
  "vetoes hook s = (case hook of None \<Rightarrow> False | Some h \<Rightarrow> \<not> h s)"

definition vetoesResult ::
  "(session \<Rightarrow> response \<Rightarrow> bool) option \<Rightarrow> session \<Rightarrow> response \<Rightarrow> bool" where
  "vetoesResult hook s result = (case hook of None \<Rightarrow> False | Some h \<Rightarrow> \<not> h s result)"

text \<open>The callback that \<^verbatim>\<open>disambiguate\<close> hands to \<^verbatim>\<open>recognize\<close>.\<close>

definition routeResult ::
  "'st recognizer \<Rightarrow> bot \<Rightarrow> rat \<Rightarrow> session \<Rightarrow> route list \<Rightarrow> callback" where
  "routeResult self b routingThreshold s results result =
     (let unrecognized =
            (if vetoesResult (onUnrecognizedRouting self) s result
             then Inr []
             else defaultRouting b s results)
      in case answer result of
           None \<Rightarrow> unrecognized
         | Some a \<Rightarrow>
             if routingThreshold < score result \<and> a \<noteq> []
             then (if vetoesResult (onRecognizedRouting self) s result
                   then Inr []
                   else Inr (processAnswer s a))
             else unrecognized)"

definition disambiguate ::
  "'st recognizer \<Rightarrow> bot \<Rightarrow> rat \<Rightarrow> 'st \<Rightarrow> heap \<Rightarrow> session \<Rightarrow> route list
     \<Rightarrow> event list \<times> 'st \<times> heap" where
  "disambiguate self b routingThreshold st h s results =
     (if vetoes (onBeginRouting self) s then ([], st, h)
      else (case messageText s of
              Some t \<Rightarrow>
                recognize self st h (Some s) (routeResult self b routingThreshold s results)
            | None \<Rightarrow>
                if vetoes (onNoTextRouting self) s then ([], st, h)
                else (case defaultRouting b s results of
                        Inl e \<Rightarrow> ([Unhandled e], st, h)
                      | Inr acts \<Rightarrow> (map Host acts, st, h))))"

text \<open>
  \<^verbatim>\<open>setBot\<close> installs \<^verbatim>\<open>disambiguate\<close> as \<^verbatim>\<open>bot._onDisambiguateRoute\<close> when routing is
  activated, and nothing otherwise.
\<close>

definition setBot ::
  "'st recognizer \<Rightarrow> bot \<Rightarrow> bool \<Rightarrow> rat
     \<Rightarrow> ('st \<Rightarrow> heap \<Rightarrow> session \<Rightarrow> route list \<Rightarrow> event list \<times> 'st \<times> heap) option" where
  "setBot self b activateRouting routingThreshold =
     (if activateRouting then Some (disambiguate self b routingThreshold) else None)"

subsection \<open>A sample deployment\<close>

text \<open>
  Concrete engines, stores and sessions on which the theorems below are run: an
  engine that always answers with a fixed response, a store for one conversation
  that keeps the context object in memory, a store whose load rejects, and a turn
  with a text, the locale \<^verbatim>\<open>en\<close> and a dialog stack.
\<close>

definition greetResponse :: response where
  "greetResponse =
     \<lparr>score = 9/10, intent = Some ''greet'',
      entities = Some [\<lparr>entity = ''name'', option = JStr ''Ann''\<rparr>],
      answer = Some ''Hello''\<rparr>"

definition lowResponse :: response where
  "lowResponse =
     \<lparr>score = 4/10, intent = Some ''greet'',
      entities = Some [\<lparr>entity = ''name'', option = JStr ''Ann''\<rparr>],
      answer = Some ''Hello''\<rparr>"

definition twiceResponse :: response where
  "twiceResponse =
     \<lparr>score = 9/10, intent = Some ''greet'',
      entities = Some [\<lparr>entity = ''name'', option = JStr ''Ann''\<rparr>,
                       \<lparr>entity = ''name'', option = JStr ''Bob''\<rparr>],
      answer = Some ''Hello''\<rparr>"

definition helpResponse :: response where
  "helpResponse =
     \<lparr>score = 8/10, intent = Some ''help'', entities = Some [], answer = Some ''/Help''\<rparr>"

definition markerResponse :: response where
  "markerResponse =
     \<lparr>score = 9/10, intent = Some ''greet'',
      entities = Some [\<lparr>entity = ''$modified'', option = JStr ''x''\<rparr>],
      answer = Some ''Hello''\<rparr>"

definition protoResponse :: response where
  "protoResponse =
     \<lparr>score = 9/10, intent = Some ''greet'',
      entities = Some [\<lparr>entity = ''__proto__'', option = JStr ''x''\<rparr>],
      answer = Some ''Hello''\<rparr>"

text \<open>
  The state of \<open>memoryStore\<close> is the reference to the context of the conversation,
  if there is one already. A load resolves with that reference, after creating
  the object when it is missing; a save that resolves keeps the reference it is
  given. The store hands out its own object, not a copy.
\<close>

definition memoryStore :: "bool \<Rightarrow> ref option store" where
  "memoryStore saves =
     \<lparr>getConversationContext =
        (\<lambda>st h s. case st of
                    Some a \<Rightarrow> (Inr a, st, h)
                  | None \<Rightarrow> (Inr (fst (alloc h)), Some (fst (alloc h)), snd (alloc h))),
      setConversationContext =
        (\<lambda>st h s a. if saves then (True, Some a, h) else (False, st, h))\<rparr>"

text \<open>What \<open>memoryStore\<close> holds for the conversation.\<close>

definition stored :: "ref option \<Rightarrow> heap \<Rightarrow> context' option" where
  "stored st h = map_option (cells h) st"

definition brokenStore :: "ref option store" where
  "brokenStore =
     \<lparr>getConversationContext = (\<lambda>st h s. (Inl Rejected, st, h)),
      setConversationContext = (\<lambda>st h s a. (False, st, h))\<rparr>"

definition demo :: "response \<Rightarrow> 'st store \<Rightarrow> 'st recognizer" where
  "demo r store =
     \<lparr>nlpManager = (\<lambda>args. Inr r), threshold = 7/10, conversationContext = store,
      onBeginRouting = None, onRecognizedRouting = None,
      onUnrecognizedRouting = None, onNoTextRouting = None\<rparr>"

definition turn :: "string \<Rightarrow> session" where
  "turn t =
     \<lparr>message = Some \<lparr>text' = Some t\<rparr>, locale' = Some ''en'',
      dialogStack = Some [''lib:internal'', ''*:main'']\<rparr>"

definition demoBot :: bot where
  "demoBot = \<lparr>bestRouteResult = (\<lambda>results stack n. None), name = ''bot''\<rparr>"

text \<open>A heap without objects, and a heap whose object 0 holds a colour.\<close>

definition emptyHeap :: heap where
  "emptyHeap = \<lparr>cells = (\<lambda>a. emptyObject), nextRef = 0\<rparr>"

definition colourHeap :: heap where
  "colourHeap =
     \<lparr>cells = (\<lambda>a. emptyObject)(0 := \<lparr>props = [''color'' \<mapsto> JStr ''red''], plain = True\<rparr>),
      nextRef = 1\<rparr>"

lemmas sample_defs = greetResponse_def lowResponse_def helpResponse_def markerResponse_def
  twiceResponse_def protoResponse_def memoryStore_def brokenStore_def demo_def turn_def demoBot_def
  emptyHeap_def colourHeap_def stored_def

lemmas model_defs = process_def orEmpty_def engineArgs_def recognize_def onResolved_def
  onRejected_def deliver_def escaping_def messageText_def getDialogId_def lookup_def
  setProperty_def deleteProperty_def alloc_def update_def emptyObject_def
  modifiedKey_def noneIntent_def receive_def Let_def

section \<open>Properties\<close>

subsection \<open>The entity loop and the stack loop\<close>

lemma props_setProperty_other:
  "k' \<noteq> k \<Longrightarrow> props (setProperty c k v) k' = props c k'"
  by (simp add: setProperty_def)

lemma props_setProperty_same:
  "k \<noteq> ''__proto__'' \<Longrightarrow> props (setProperty c k v) k = Some v"
  by (simp add: setProperty_def)

lemma plain_setProperty:
  "k \<noteq> ''__proto__'' \<Longrightarrow> plain (setProperty c k v) = plain c"
  by (simp add: setProperty_def)

lemma modifiedKey_not_proto: "modifiedKey \<noteq> ''__proto__''"
  by (simp add: modifiedKey_def)

lemma mergeEntities_append:
  "mergeEntities (xs @ ys) c = mergeEntities ys (mergeEntities xs c)"
  by (induction xs arbitrary: c) simp_all

lemma mergeEntities_other:
  "k \<noteq> modifiedKey \<Longrightarrow> k \<notin> entity ` set es \<Longrightarrow> props (mergeEntities es c) k = props c k"
  by (induction es arbitrary: c) (auto simp: props_setProperty_other)

lemma mergeEntities_plain:
  "\<forall>e \<in> set es. entity e \<noteq> ''__proto__'' \<Longrightarrow> plain (mergeEntities es c) = plain c"
  by (induction es arbitrary: c) (auto simp: plain_setProperty modifiedKey_not_proto)

lemma mergeEntities_marker:
  "es \<noteq> [] \<Longrightarrow> props (mergeEntities es c) modifiedKey = Some (JBool True)"
proof (induction es arbitrary: c)
  case Nil
  then show ?case by simp
next
  case (Cons e es)
  show ?case
  proof (cases es)
    case Nil
    then show ?thesis by (simp add: props_setProperty_same modifiedKey_not_proto)
  next
    case (Cons e' es')
    then have "es \<noteq> []" by simp
    from Cons.IH [OF this] show ?thesis by simp
  qed
qed

lemma mergeEntities_last_wins:
  assumes "es = pre @ e # post"
      and "entity e \<noteq> modifiedKey"
      and "entity e \<noteq> ''__proto__''"
      and "\<forall>x \<in> set post. entity x \<noteq> entity e"
  shows "props (mergeEntities es c) (entity e) = Some (option e)"
proof -
  have notin: "entity e \<notin> entity ` set post"
    using assms(4) by auto
  have "props (mergeEntities es c) (entity e)
          = props (mergeEntities post (mergeEntities [e] (mergeEntities pre c))) (entity e)"
    using assms(1) by (simp add: mergeEntities_append)
  also have "\<dots> = props (mergeEntities [e] (mergeEntities pre c)) (entity e)"
    using mergeEntities_other [OF assms(2) notin] by simp
  also have "\<dots> = Some (option e)"
    using assms(2,3) by (simp add: props_setProperty_other props_setProperty_same)
  finally show ?thesis .
qed

lemma scanStack_none:
  "\<forall>d \<in> set stack. \<not> prefix ''*:'' d \<Longrightarrow> scanStack stack = []"
  by (induction stack) auto

lemma scanStack_first:
  "\<forall>d \<in> set pre. \<not> prefix ''*:'' d
     \<Longrightarrow> scanStack (pre @ (CHR ''*'' # CHR '':'' # rest) # post) = rest"
  by (induction pre) auto

subsection \<open>process\<close>

lemma orEmpty_Some: "orEmpty h (Some a) = (a, h)"
  by (simp add: orEmpty_def)

lemma fst_process:
  "fst (process self h srcContext loc utterance)
     = [EngineCall (engineArgs loc utterance (fst (orEmpty h srcContext))
          (cells (snd (orEmpty h srcContext)) (fst (orEmpty h srcContext))))]"
  by (simp add: process_def Let_def)

text \<open>
  Claim C1. When the response of the engine has a score below the threshold or the
  intent \<^verbatim>\<open>None\<close>, \<^verbatim>\<open>process\<close> returns that response with its answer cleared, and
  writes nothing: the heap is as \<^verbatim>\<open>srcContext || {}\<close> leaves it, so the context
  object it was given (an empty new one when none was given) is unchanged, no
  entity is written and the marker \<^verbatim>\<open>$modified\<close> is not touched.
\<close>

theorem process_rejected_clears_answer:
  assumes "orEmpty h srcContext = (a, h0)"
      and "nlpManager self (engineArgs loc utterance a (cells h0 a)) = Inr r"
      and "score r < threshold self \<or> intent r = Some noneIntent"
  shows "snd (process self h srcContext loc utterance) = (h0, Inr (r\<lparr>answer := None\<rparr>, a))
         \<and> (srcContext = Some a \<longrightarrow> h0 = h)
         \<and> (srcContext = None \<longrightarrow> cells h0 a = emptyObject)"
  using assms by (auto simp: process_def Let_def orEmpty_def alloc_def)

theorem process_rejected_clears_answer_witness:
  "snd (process (demo lowResponse (memoryStore True)) colourHeap (Some 0) (Some ''en'') ''hi'')
     = (colourHeap, Inr (lowResponse\<lparr>answer := None\<rparr>, 0))
   \<and> cells colourHeap 0 = \<lparr>props = [''color'' \<mapsto> JStr ''red''], plain = True\<rparr>"
proof -
  let ?self = "demo lowResponse (memoryStore True)"
  have given: "orEmpty colourHeap (Some 0) = (0, colourHeap)"
    by (simp add: orEmpty_def)
  have eng: "nlpManager ?self (engineArgs (Some ''en'') ''hi'' 0 (cells colourHeap 0)) = Inr lowResponse"
    by (simp add: demo_def)
  have low: "score lowResponse < threshold ?self \<or> intent lowResponse = Some noneIntent"
    by (simp add: demo_def lowResponse_def)
  have cell: "cells colourHeap 0 = \<lparr>props = [''color'' \<mapsto> JStr ''red''], plain = True\<rparr>"
    by (simp add: colourHeap_def)
  from process_rejected_clears_answer [OF given eng low] cell show ?thesis by simp
qed

text \<open>
  Claim C2, as the code has it. When the response has a score of at least the
  threshold, an intent other than \<^verbatim>\<open>None\<close> and a list of entities, \<^verbatim>\<open>process\<close>
  returns the response unchanged and writes into the context object in place.
  Afterwards every entity name other than the reserved key \<^verbatim>\<open>$modified\<close> and the
  name \<^verbatim>\<open>__proto__\<close> is an own property that holds the option of the last entity of
  that name; every other property except \<^verbatim>\<open>$modified\<close> is as before; the marker
  \<^verbatim>\<open>$modified\<close> is \<^verbatim>\<open>true\<close> when the list has at least one entity; the object is
  unchanged when the list is empty; its prototype is unchanged when no entity is
  named \<^verbatim>\<open>__proto__\<close>; and no other object of the heap is written.
\<close>

theorem process_accepted_merges_entities:
  assumes given: "orEmpty h srcContext = (a, h0)"
      and eng: "nlpManager self (engineArgs loc utterance a (cells h0 a)) = Inr r"
      and acc: "threshold self \<le> score r \<and> intent r \<noteq> Some noneIntent"
      and ents: "entities r = Some es"
  shows "\<exists>c'. snd (process self h srcContext loc utterance) = (update h0 a c', Inr (r, a))
           \<and> (\<forall>pre e post. es = pre @ e # post \<and> entity e \<noteq> modifiedKey
                  \<and> entity e \<noteq> ''__proto__''
                  \<and> (\<forall>x \<in> set post. entity x \<noteq> entity e)
                \<longrightarrow> props c' (entity e) = Some (option e))
           \<and> (\<forall>k. k \<noteq> modifiedKey \<and> k \<notin> entity ` set es \<longrightarrow> props c' k = props (cells h0 a) k)
           \<and> (es \<noteq> [] \<longrightarrow> props c' modifiedKey = Some (JBool True))
           \<and> (es = [] \<longrightarrow> c' = cells h0 a)
           \<and> ((\<forall>e \<in> set es. entity e \<noteq> ''__proto__'') \<longrightarrow> plain c' = plain (cells h0 a))"
proof -
  have run: "snd (process self h srcContext loc utterance)
               = (update h0 a (mergeEntities es (cells h0 a)), Inr (r, a))"
    using given eng acc ents by (simp add: process_def Let_def not_less)
  show ?thesis
    unfolding run
    by (intro exI [of _ "mergeEntities es (cells h0 a)"] conjI allI impI)
       (auto simp: mergeEntities_last_wins mergeEntities_other mergeEntities_marker
                   mergeEntities_plain)
qed

theorem process_accepted_merges_entities_witness:
  "\<exists>c'. snd (process (demo twiceResponse (memoryStore True)) colourHeap (Some 0)
                (Some ''en'') ''hi'') = (update colourHeap 0 c', Inr (twiceResponse, 0))
        \<and> props c' ''name'' = Some (JStr ''Bob'')
        \<and> props c' ''color'' = Some (JStr ''red'')
        \<and> props c' modifiedKey = Some (JBool True)
        \<and> plain c'"
proof -
  let ?self = "demo twiceResponse (memoryStore True)"
  let ?es = "[\<lparr>entity = ''name'', option = JStr ''Ann''\<rparr>,
              \<lparr>entity = ''name'', option = JStr ''Bob''\<rparr>]"
  have given: "orEmpty colourHeap (Some 0) = (0, colourHeap)"
    by (simp add: orEmpty_def)
  have eng: "nlpManager ?self (engineArgs (Some ''en'') ''hi'' 0 (cells colourHeap 0))
               = Inr twiceResponse"
    by (simp add: demo_def)
  have acc: "threshold ?self \<le> score twiceResponse \<and> intent twiceResponse \<noteq> Some noneIntent"
    by (simp add: demo_def twiceResponse_def noneIntent_def)
  have ents: "entities twiceResponse = Some ?es"
    by (simp add: twiceResponse_def)
  from process_accepted_merges_entities [OF given eng acc ents]
  obtain c' where run: "snd (process ?self colourHeap (Some 0) (Some ''en'') ''hi'')
                          = (update colourHeap 0 c', Inr (twiceResponse, 0))"
    and lastWins: "\<forall>pre e post. ?es = pre @ e # post \<and> entity e \<noteq> modifiedKey
                  \<and> entity e \<noteq> ''__proto__''
                  \<and> (\<forall>x \<in> set post. entity x \<noteq> entity e)
                \<longrightarrow> props c' (entity e) = Some (option e)"
    and frame: "\<forall>k. k \<noteq> modifiedKey \<and> k \<notin> entity ` set ?es
                  \<longrightarrow> props c' k = props (cells colourHeap 0) k"
    and marker: "?es \<noteq> [] \<longrightarrow> props c' modifiedKey = Some (JBool True)"
    and proto: "(\<forall>e \<in> set ?es. entity e \<noteq> ''__proto__'') \<longrightarrow> plain c' = plain (cells colourHeap 0)"
    by blast
  have "props c' (entity \<lparr>entity = ''name'', option = JStr ''Bob''\<rparr>)
          = Some (option \<lparr>entity = ''name'', option = JStr ''Bob''\<rparr>)"
    using lastWins [rule_format, of "[\<lparr>entity = ''name'', option = JStr ''Ann''\<rparr>]"
                      "\<lparr>entity = ''name'', option = JStr ''Bob''\<rparr>" "[]"]
    by (simp add: modifiedKey_def)
  then have name: "props c' ''name'' = Some (JStr ''Bob'')" by simp
  have color: "props c' ''color'' = Some (JStr ''red'')"
    using frame [rule_format, of "''color''"] by (simp add: modifiedKey_def colourHeap_def)
  have pl: "plain c'"
    using proto by (simp add: colourHeap_def)
  from run name color marker pl show ?thesis by blast
qed

text \<open>
  Claim C2 as it is written fails on three accepted responses, each processed
  with a new empty context (object 0 of the heap afterwards). An entity named
  \<^verbatim>\<open>$modified\<close> with the option \<^verbatim>\<open>x\<close> is overwritten by the marker in the same round
  of the loop, so the context holds \<^verbatim>\<open>true\<close> under that name, not \<^verbatim>\<open>x\<close>. An entity
  named \<^verbatim>\<open>__proto__\<close> with the option \<^verbatim>\<open>x\<close> is not stored at all: the context has
  only the marker. An empty entity list leaves the context empty: the marker is
  not set.
\<close>

theorem process_marker_entity_counterexample:
  "entities markerResponse = Some [\<lparr>entity = ''$modified'', option = JStr ''x''\<rparr>]
   \<and> snd (snd (process (demo markerResponse (memoryStore True)) emptyHeap None None ''hi''))
       = Inr (markerResponse, 0)
   \<and> cells (fst (snd (process (demo markerResponse (memoryStore True)) emptyHeap None None ''hi''))) 0
       = \<lparr>props = [''$modified'' \<mapsto> JBool True], plain = True\<rparr>
   \<and> entities protoResponse = Some [\<lparr>entity = ''__proto__'', option = JStr ''x''\<rparr>]
   \<and> snd (snd (process (demo protoResponse (memoryStore True)) emptyHeap None None ''hi''))
       = Inr (protoResponse, 0)
   \<and> cells (fst (snd (process (demo protoResponse (memoryStore True)) emptyHeap None None ''hi''))) 0
       = \<lparr>props = [''$modified'' \<mapsto> JBool True], plain = True\<rparr>
   \<and> entities helpResponse = Some []
   \<and> snd (snd (process (demo helpResponse (memoryStore True)) emptyHeap None None ''hi''))
       = Inr (helpResponse, 0)
   \<and> cells (fst (snd (process (demo helpResponse (memoryStore True)) emptyHeap None None ''hi''))) 0
       = \<lparr>props = Map.empty, plain = True\<rparr>"
  by (simp add: sample_defs model_defs)

text \<open>
  Claim C9, as the code has it. \<^verbatim>\<open>process\<close> calls the engine exactly once, always
  with three arguments. When the locale is absent or the empty string they are
  the utterance, \<^verbatim>\<open>undefined\<close> and the context: the utterance takes the place of
  the locale and the second argument is \<^verbatim>\<open>undefined\<close>. Otherwise they are the
  locale, the utterance and the context.
\<close>

theorem engine_call_arguments:
  assumes "orEmpty h srcContext = (a, h0)"
  shows "(loc = None \<or> loc = Some [] \<longrightarrow>
      fst (process self h srcContext loc utterance)
        = [EngineCall [AVal (JStr utterance), AVal JUndefined, ACtx a (cells h0 a)]])
   \<and> (\<forall>l. loc = Some l \<and> l \<noteq> [] \<longrightarrow>
      fst (process self h srcContext loc utterance)
        = [EngineCall [AVal (JStr l), AVal (JStr utterance), ACtx a (cells h0 a)]])"
  using assms by (auto simp: process_def Let_def engineArgs_def)

theorem engine_call_arguments_witness:
  "fst (process (demo greetResponse (memoryStore True)) colourHeap (Some 0) None ''hi'')
     = [EngineCall [AVal (JStr ''hi''), AVal JUndefined, ACtx 0 (cells colourHeap 0)]]
   \<and> fst (process (demo greetResponse (memoryStore True)) colourHeap (Some 0) (Some ''en'') ''hi'')
     = [EngineCall [AVal (JStr ''en''), AVal (JStr ''hi''), ACtx 0 (cells colourHeap 0)]]"
proof -
  have given: "orEmpty colourHeap (Some 0) = (0, colourHeap)"
    by (simp add: orEmpty_def)
  from engine_call_arguments [OF given, of None "demo greetResponse (memoryStore True)" "''hi''"]
       engine_call_arguments [OF given, of "Some ''en''" "demo greetResponse (memoryStore True)" "''hi''"]
  show ?thesis by simp
qed

text \<open>
  Claim C9 as it is written fails: without a locale the call does not have the two
  arguments (utterance, context).
\<close>

theorem engine_call_two_arguments_counterexample:
  "fst (process (demo greetResponse (memoryStore True)) emptyHeap None None ''hi'')
     \<noteq> [EngineCall [AVal (JStr ''hi''), ACtx 0 emptyObject]]"
  by (simp add: process_def Let_def engineArgs_def)

subsection \<open>getDialogId\<close>

text \<open>
  Claim C7. \<^verbatim>\<open>getDialogId\<close> returns the empty string when the session has no
  dialog stack and when no entry of the stack starts with \<^verbatim>\<open>*:\<close>; otherwise it
  returns what follows \<^verbatim>\<open>*:\<close> in the first such entry, counted from the bottom of
  the stack (index 0). The stack \<^verbatim>\<open>["lib:internal", "*:main"]\<close> gives \<^verbatim>\<open>main\<close>.
\<close>

theorem getDialogId_first_developer_dialog:
  "(dialogStack s = None \<longrightarrow> getDialogId s = [])
   \<and> (\<forall>stack. dialogStack s = Some stack \<and> (\<forall>d \<in> set stack. \<not> prefix ''*:'' d)
          \<longrightarrow> getDialogId s = [])
   \<and> (\<forall>pre rest post. dialogStack s = Some (pre @ (''*:'' @ rest) # post)
            \<and> (\<forall>d \<in> set pre. \<not> prefix ''*:'' d)
          \<longrightarrow> getDialogId s = rest)
   \<and> getDialogId (s\<lparr>dialogStack := Some [''lib:internal'', ''*:main'']\<rparr>) = ''main''"
  by (auto simp: getDialogId_def scanStack_none scanStack_first)

theorem getDialogId_first_developer_dialog_witness:
  "getDialogId ((turn ''hi'')\<lparr>dialogStack := None\<rparr>) = []
   \<and> getDialogId ((turn ''hi'')\<lparr>dialogStack := Some [''lib:internal'', ''BotBuilder:prompt'']\<rparr>) = []
   \<and> getDialogId ((turn ''hi'')\<lparr>dialogStack := Some [''lib:internal'', ''*:main'', ''*:sub'']\<rparr>)
       = ''main''"
proof -
  let ?s1 = "(turn ''hi'')\<lparr>dialogStack := None\<rparr>"
  let ?s2 = "(turn ''hi'')\<lparr>dialogStack := Some [''lib:internal'', ''BotBuilder:prompt'']\<rparr>"
  let ?s3 = "(turn ''hi'')\<lparr>dialogStack := Some [''lib:internal'', ''*:main'', ''*:sub'']\<rparr>"
  have a: "getDialogId ?s1 = []"
    using getDialogId_first_developer_dialog [of ?s1] by simp
  have b: "getDialogId ?s2 = []"
    using getDialogId_first_developer_dialog [of ?s2] by simp
  have "dialogStack ?s3 = Some ([''lib:internal''] @ (''*:'' @ ''main'') # [''*:sub''])
          \<and> (\<forall>d \<in> set [''lib:internal'']. \<not> prefix ''*:'' d)"
    by simp
  with getDialogId_first_developer_dialog [of ?s3]
  have c: "getDialogId ?s3 = ''main''" by blast
  from a b c show ?thesis by simp
qed

subsection \<open>Where a save can come from\<close>

lemma SetContext_notin_deliver: "SetContext s a c \<notin> set (deliver cb r)"
  by (auto simp: deliver_def split: sum.splits)

lemma SetContext_notin_escaping: "SetContext s a c \<notin> set (escaping cb r)"
  by (auto simp: escaping_def split: sum.splits)

lemma SetContext_notin_onRejected:
  "SetContext s a c \<notin> set (fst (onRejected self h loc utterance cb))"
proof -
  let ?p = "process self (snd (alloc h)) (Some (fst (alloc h))) loc utterance"
  obtain evs h1 res where p: "?p = (evs, h1, res)"
    by (cases ?p) auto
  then have evs: "\<exists>args. evs = [EngineCall args]"
    using fst_process [of self "snd (alloc h)" "Some (fst (alloc h))" loc utterance] by simp
  show ?thesis
    using p evs
    by (auto simp: onRejected_def SetContext_notin_deliver SetContext_notin_escaping
             split: sum.splits prod.splits)
qed

lemma SetContext_in_onResolved:
  assumes "SetContext s' a c \<in> set (fst (onResolved self st h s loc utterance cb srcContext))"
  shows "\<exists>h1 r. snd (process self
                       (update h srcContext
                          (setProperty (cells h srcContext) ''dialogId'' (JStr (getDialogId s))))
                       (Some srcContext) loc utterance) = (h1, Inr (r, srcContext))
           \<and> truthy (lookup (cells h1 srcContext) modifiedKey)
           \<and> s' = s \<and> a = srcContext
           \<and> c = deleteProperty (cells h1 srcContext) modifiedKey"
proof -
  let ?h0 = "update h srcContext
               (setProperty (cells h srcContext) ''dialogId'' (JStr (getDialogId s)))"
  let ?p = "process self ?h0 (Some srcContext) loc utterance"
  obtain evs h1 res where p: "?p = (evs, h1, res)"
    by (cases ?p) auto
  then have evs: "\<exists>args. evs = [EngineCall args]"
    using fst_process [of self ?h0 "Some srcContext" loc utterance] by simp
  have ref: "res = Inr (r, b) \<Longrightarrow> b = srcContext" for r b
    using p by (auto simp: process_def Let_def orEmpty_def split: sum.splits if_splits option.splits)
  show ?thesis
    using assms p evs ref
    by (auto simp: onResolved_def Let_def update_def SetContext_notin_deliver
                   SetContext_notin_escaping SetContext_notin_onRejected
             split: sum.splits prod.splits if_splits)
qed

subsection \<open>recognize\<close>

lemma recognize_loaded:
  assumes "messageText s = Some utterance"
      and "getConversationContext (conversationContext self) st h s = (Inr srcContext, st1, h1)"
  shows "fst (recognize self st h (Some s) cb)
           = GetContext s # fst (onResolved self st1 h1 s (locale' s) utterance cb srcContext)"
    and "snd (recognize self st h (Some s) cb)
           = snd (onResolved self st1 h1 s (locale' s) utterance cb srcContext)"
  using assms by (auto simp: recognize_def Let_def split: prod.splits)

lemma recognize_not_loaded:
  assumes "messageText s = Some utterance"
      and "getConversationContext (conversationContext self) st h s = (Inl e, st1, h1)"
  shows "recognize self st h (Some s) cb
           = (GetContext s # fst (onRejected self h1 (locale' s) utterance cb), st1,
              snd (onRejected self h1 (locale' s) utterance cb))"
  using assms by (simp add: recognize_def Let_def)

lemma SetContext_in_recognize:
  assumes "SetContext s' a c \<in> set (fst (recognize self st h sessionOpt cb))"
  shows "\<exists>s utterance srcContext st1 h1.
           sessionOpt = Some s \<and> messageText s = Some utterance
         \<and> getConversationContext (conversationContext self) st h s = (Inr srcContext, st1, h1)
         \<and> SetContext s' a c
               \<in> set (fst (onResolved self st1 h1 s (locale' s) utterance cb srcContext))"
proof (cases sessionOpt)
  case None
  with assms show ?thesis
    by (auto simp: recognize_def Let_def SetContext_notin_deliver SetContext_notin_escaping)
next
  case (Some s)
  show ?thesis
  proof (cases "messageText s")
    case None
    with Some assms show ?thesis
      by (auto simp: recognize_def Let_def SetContext_notin_deliver SetContext_notin_escaping)
  next
    case utt: (Some utterance)
    obtain res st1 h1
      where load: "getConversationContext (conversationContext self) st h s = (res, st1, h1)"
      by (cases "getConversationContext (conversationContext self) st h s") auto
    show ?thesis
    proof (cases res)
      case (Inl e)
      with assms Some utt load show ?thesis
        by (simp add: recognize_not_loaded SetContext_notin_onRejected)
    next
      case (Inr srcContext)
      with assms Some utt load show ?thesis
        by (simp add: recognize_loaded)
    qed
  qed
qed

text \<open>
  Claim C3, as the code has it. For a turn without message text (no session, no
  message, no text or the empty text) \<^verbatim>\<open>recognize\<close> calls the callback once, with
  the result of score 0 whose intent is \<^verbatim>\<open>undefined\<close> (the result has no intent,
  no entities and no answer), and calls neither the store nor the engine: the
  state of the store and the heap are as before.
\<close>

theorem recognize_without_text:
  assumes "sessionOpt = None \<or> (\<exists>s. sessionOpt = Some s \<and> messageText s = None)"
  shows "recognize self st h sessionOpt cb
           = (Callback \<lparr>score = 0, intent = None, entities = None, answer = None\<rparr>
               # (case cb \<lparr>score = 0, intent = None, entities = None, answer = None\<rparr> of
                    Inl e \<Rightarrow> [Unhandled e]
                  | Inr acts \<Rightarrow> map Host acts),
              st, h)"
  using assms
  by (auto simp: recognize_def Let_def deliver_def escaping_def split: sum.splits)

theorem recognize_without_text_witness:
  "recognize (demo greetResponse (memoryStore True)) None emptyHeap
     (Some ((turn ''hi'')\<lparr>message := Some \<lparr>text' = Some []\<rparr>\<rparr>)) receive
     = ([Callback \<lparr>score = 0, intent = None, entities = None, answer = None\<rparr>], None, emptyHeap)"
proof -
  let ?s = "(turn ''hi'')\<lparr>message := Some \<lparr>text' = Some []\<rparr>\<rparr>"
  have h: "Some ?s = None \<or> (\<exists>s. Some ?s = Some s \<and> messageText s = None)"
    by (simp add: messageText_def)
  show ?thesis
    using recognize_without_text [OF h, of "demo greetResponse (memoryStore True)" None
                                    emptyHeap receive]
    by (simp add: receive_def)
qed

text \<open>
  Claim C3 as it is written fails: the intent of the neutral result is not the
  intent \<^verbatim>\<open>None\<close> that \<^verbatim>\<open>process\<close> tests for.
\<close>

theorem recognize_without_text_counterexample:
  "fst (recognize (demo greetResponse (memoryStore True)) None emptyHeap None receive)
     \<noteq> [Callback \<lparr>score = 0, intent = Some noneIntent, entities = None, answer = None\<rparr>]"
  by (simp add: recognize_def deliver_def escaping_def receive_def Let_def)

text \<open>
  Claim C4. Whatever the engine, the store, the session and the callback do, a
  context that \<^verbatim>\<open>recognize\<close> hands to \<^verbatim>\<open>setConversationContext\<close> does not have the
  property \<^verbatim>\<open>$modified\<close>.
\<close>

theorem saved_context_has_no_marker:
  "SetContext s' a c \<in> set (fst (recognize self st h sessionOpt cb))
     \<Longrightarrow> props c modifiedKey = None"
  by (auto simp: deleteProperty_def dest!: SetContext_in_recognize SetContext_in_onResolved)

theorem saved_context_has_no_marker_witness:
  "SetContext (turn ''hi'') 0
       \<lparr>props = [''dialogId'' \<mapsto> JStr ''main'', ''name'' \<mapsto> JStr ''Ann''], plain = True\<rparr>
     \<in> set (fst (recognize (demo greetResponse (memoryStore True)) None emptyHeap
                   (Some (turn ''hi'')) receive))
   \<and> props \<lparr>props = [''dialogId'' \<mapsto> JStr ''main'', ''name'' \<mapsto> JStr ''Ann''], plain = True\<rparr>
        modifiedKey = None"
proof -
  have h: "SetContext (turn ''hi'') 0
       \<lparr>props = [''dialogId'' \<mapsto> JStr ''main'', ''name'' \<mapsto> JStr ''Ann''], plain = True\<rparr>
     \<in> set (fst (recognize (demo greetResponse (memoryStore True)) None emptyHeap
                   (Some (turn ''hi'')) receive))"
    by (simp add: sample_defs model_defs)
  from saved_context_has_no_marker [OF h] h show ?thesis by simp
qed

text \<open>
  Claim C5. When the load of the context rejects, \<^verbatim>\<open>recognize\<close> calls the engine
  with a new empty object, which has no \<^verbatim>\<open>dialogId\<close>; the result it gives to the
  callback is the one that \<^verbatim>\<open>process\<close> computes from no context at all; the
  store is never asked to save and its state is the one the load has left.
\<close>

theorem load_failure_uses_empty_context:
  assumes "messageText s = Some utterance"
      and "getConversationContext (conversationContext self) st h s = (Inl e, st1, h1)"
  shows "fst (recognize self st h (Some s) cb)
           = GetContext s
               # EngineCall (engineArgs (locale' s) utterance (nextRef h1) emptyObject)
               # (case snd (snd (process self h1 None (locale' s) utterance)) of
                    Inl e' \<Rightarrow> [Unhandled e']
                  | Inr (r, a) \<Rightarrow> deliver cb r @ escaping cb r)
         \<and> (\<forall>s' a c. SetContext s' a c \<notin> set (fst (recognize self st h (Some s) cb)))
         \<and> fst (snd (recognize self st h (Some s) cb)) = st1"
proof -
  let ?p = "process self h1 None (locale' s) utterance"
  have same: "process self (snd (alloc h1)) (Some (fst (alloc h1))) (locale' s) utterance = ?p"
    by (simp add: process_def orEmpty_def)
  have rec: "recognize self st h (Some s) cb
               = (GetContext s # fst (onRejected self h1 (locale' s) utterance cb), st1,
                  snd (onRejected self h1 (locale' s) utterance cb))"
    using assms by (rule recognize_not_loaded)
  obtain evs h2 res where p: "?p = (evs, h2, res)"
    by (cases ?p) auto
  have evs: "evs = [EngineCall (engineArgs (locale' s) utterance (nextRef h1) emptyObject)]"
    using fst_process [of self h1 None "locale' s" utterance] p
    by (simp add: orEmpty_def alloc_def)
  have rej: "fst (onRejected self h1 (locale' s) utterance cb)
      = EngineCall (engineArgs (locale' s) utterance (nextRef h1) emptyObject)
               # (case snd (snd ?p) of
                    Inl e' \<Rightarrow> [Unhandled e']
                  | Inr (r, a) \<Rightarrow> deliver cb r @ escaping cb r)"
    unfolding onRejected_def same using p evs
    by (auto split: sum.splits)
  have nosave: "\<forall>s' a c. SetContext s' a c \<notin> set (fst (recognize self st h (Some s) cb))"
    unfolding rec by (simp add: SetContext_notin_onRejected)
  from rec rej have "fst (recognize self st h (Some s) cb)
           = GetContext s
               # EngineCall (engineArgs (locale' s) utterance (nextRef h1) emptyObject)
               # (case snd (snd ?p) of
                    Inl e' \<Rightarrow> [Unhandled e']
                  | Inr (r, a) \<Rightarrow> deliver cb r @ escaping cb r)"
    by simp
  moreover from rec have "fst (snd (recognize self st h (Some s) cb)) = st1"
    by simp
  ultimately show ?thesis using nosave by blast
qed

theorem load_failure_uses_empty_context_witness:
  "fst (recognize (demo greetResponse brokenStore) None emptyHeap (Some (turn ''hi'')) receive)
     = [GetContext (turn ''hi''),
        EngineCall [AVal (JStr ''en''), AVal (JStr ''hi''), ACtx 0 emptyObject],
        Callback greetResponse]"
proof -
  let ?self = "demo greetResponse brokenStore"
  have utt: "messageText (turn ''hi'') = Some ''hi''"
    by (simp add: messageText_def turn_def)
  have load: "getConversationContext (conversationContext ?self) None emptyHeap (turn ''hi'')
                = (Inl Rejected, None, emptyHeap)"
    by (simp add: demo_def brokenStore_def)
  have run: "\<exists>h2. snd (process ?self emptyHeap None (locale' (turn ''hi'')) ''hi'')
               = (h2, Inr (greetResponse, 0))"
    by (simp add: sample_defs process_def orEmpty_def alloc_def noneIntent_def Let_def)
  then obtain h2 where "snd (snd (process ?self emptyHeap None (locale' (turn ''hi'')) ''hi''))
               = Inr (greetResponse, 0)"
    by auto
  with load_failure_uses_empty_context [OF utt load, of receive]
  show ?thesis
    by (simp add: turn_def engineArgs_def deliver_def escaping_def receive_def emptyHeap_def)
qed

text \<open>
  Claim C6. When the context is loaded, \<^verbatim>\<open>process\<close> returns a result and leaves the
  marker set, \<^verbatim>\<open>recognize\<close> asks the store to save the context and then calls the
  callback with that result, whether the save resolves or rejects: nothing is
  assumed about \<^verbatim>\<open>setConversationContext\<close>. The callback only ever receives the
  result; its first argument is always \<^verbatim>\<open>null\<close>.
\<close>

theorem callback_fires_after_save:
  assumes "messageText s = Some utterance"
      and "getConversationContext (conversationContext self) st h s = (Inr srcContext, st1, h1)"
      and "h0 = update h1 srcContext
                  (setProperty (cells h1 srcContext) ''dialogId'' (JStr (getDialogId s)))"
      and "snd (process self h0 (Some srcContext) (locale' s) utterance) = (h2, Inr (r, a))"
      and "truthy (lookup (cells h2 srcContext) modifiedKey)"
  shows "(\<exists>rest. fst (recognize self st h (Some s) cb)
           = [GetContext s,
              EngineCall (engineArgs (locale' s) utterance srcContext (cells h0 srcContext)),
              SetContext s srcContext (deleteProperty (cells h2 srcContext) modifiedKey)]
             @ deliver cb r @ rest)
         \<and> (\<forall>acts. cb r = Inr acts \<longrightarrow>
               fst (recognize self st h (Some s) cb)
                 = [GetContext s,
                    EngineCall (engineArgs (locale' s) utterance srcContext (cells h0 srcContext)),
                    SetContext s srcContext (deleteProperty (cells h2 srcContext) modifiedKey),
                    Callback r] @ map Host acts)"
proof -
  let ?p = "process self h0 (Some srcContext) (locale' s) utterance"
  obtain evs where p: "?p = (evs, h2, Inr (r, a))"
    using assms(4) by (cases ?p) auto
  then have evs: "evs = [EngineCall (engineArgs (locale' s) utterance srcContext (cells h0 srcContext))]"
    using fst_process [of self h0 "Some srcContext" "locale' s" utterance]
    by (simp add: orEmpty_def)
  obtain saved st' h3
    where save: "setConversationContext (conversationContext self) st1
                   (update h2 srcContext (deleteProperty (cells h2 srcContext) modifiedKey))
                   s srcContext = (saved, st', h3)"
    by (cases "setConversationContext (conversationContext self) st1
                   (update h2 srcContext (deleteProperty (cells h2 srcContext) modifiedKey))
                   s srcContext") auto
  have "fst (recognize self st h (Some s) cb)
          = GetContext s # fst (onResolved self st1 h1 s (locale' s) utterance cb srcContext)"
    using assms(1,2) by (rule recognize_loaded)
  then show ?thesis
    using assms(3,5) p evs save
    by (auto simp: onResolved_def deliver_def escaping_def update_def Let_def
             split: sum.splits)
qed

theorem callback_fires_after_save_witness:
  "fst (recognize (demo greetResponse (memoryStore False)) None emptyHeap (Some (turn ''hi'')) receive)
     = [GetContext (turn ''hi''),
        EngineCall [AVal (JStr ''en''), AVal (JStr ''hi''),
                    ACtx 0 \<lparr>props = [''dialogId'' \<mapsto> JStr ''main''], plain = True\<rparr>],
        SetContext (turn ''hi'') 0
          \<lparr>props = [''dialogId'' \<mapsto> JStr ''main'', ''name'' \<mapsto> JStr ''Ann''], plain = True\<rparr>,
        Callback greetResponse]
   \<and> \<not> fst (setConversationContext (conversationContext (demo greetResponse (memoryStore False)))
              (Some 0) emptyHeap (turn ''hi'') 0)"
proof -
  let ?self = "demo greetResponse (memoryStore False)"
  let ?h1 = "snd (alloc emptyHeap)"
  let ?h0 = "update ?h1 0 (setProperty (cells ?h1 0) ''dialogId'' (JStr (getDialogId (turn ''hi''))))"
  let ?c1 = "\<lparr>props = [''dialogId'' \<mapsto> JStr ''main'', ''name'' \<mapsto> JStr ''Ann'',
                          modifiedKey \<mapsto> JBool True], plain = True\<rparr>"
  have utt: "messageText (turn ''hi'') = Some ''hi''"
    by (simp add: messageText_def turn_def)
  have load: "getConversationContext (conversationContext ?self) None emptyHeap (turn ''hi'')
                = (Inr 0, Some 0, ?h1)"
    by (simp add: demo_def memoryStore_def alloc_def emptyHeap_def)
  have run: "snd (process ?self ?h0 (Some 0) (locale' (turn ''hi'')) ''hi'')
               = (update ?h0 0 ?c1, Inr (greetResponse, 0))"
    by (simp add: sample_defs model_defs)
  have marked: "truthy (lookup (cells (update ?h0 0 ?c1) 0) modifiedKey)"
    by (simp add: lookup_def update_def)
  have c2: "deleteProperty (cells (update ?h0 0 ?c1) 0) modifiedKey
              = \<lparr>props = [''dialogId'' \<mapsto> JStr ''main'', ''name'' \<mapsto> JStr ''Ann''], plain = True\<rparr>"
    by (auto simp: deleteProperty_def update_def modifiedKey_def fun_eq_iff)
  have c0: "cells ?h0 0 = \<lparr>props = [''dialogId'' \<mapsto> JStr ''main''], plain = True\<rparr>"
    by (simp add: sample_defs model_defs)
  have cb: "receive greetResponse = Inr []"
    by (simp add: receive_def)
  from callback_fires_after_save [OF utt load refl run marked, of receive] cb
  have "fst (recognize ?self None emptyHeap (Some (turn ''hi'')) receive)
          = [GetContext (turn ''hi''),
             EngineCall (engineArgs (locale' (turn ''hi'')) ''hi'' 0 (cells ?h0 0)),
             SetContext (turn ''hi'') 0 (deleteProperty (cells (update ?h0 0 ?c1) 0) modifiedKey),
             Callback greetResponse] @ map Host []"
    by blast
  then show ?thesis
    unfolding c2 c0
    by (simp add: turn_def engineArgs_def demo_def memoryStore_def)
qed







subsection \<open>Routing\<close>

text \<open>
  Claim C8, as the code has it. With routing activated, for a session with a text
  whose \<^verbatim>\<open>onBeginRouting\<close> hook (if any) does not veto, the installed handler runs
  \<^verbatim>\<open>recognize\<close> with a callback that, for a result with a score above the routing
  threshold and a non-empty answer that \<^verbatim>\<open>onRecognizedRouting\<close> (if any) does not
  veto, does exactly one thing: it begins the dialog whose id is the whole answer,
  slash included, when the answer starts with a slash (the answer \<^verbatim>\<open>/Help\<close>
  begins the dialog \<^verbatim>\<open>/Help\<close>), and sends the answer as a message otherwise.
\<close>

theorem routing_dispatches_answer:
  assumes "setBot self b True routingThreshold = Some handler"
      and "\<not> vetoes (onBeginRouting self) s"
      and "messageText s = Some utterance"
  shows "handler st h s results
           = recognize self st h (Some s) (routeResult self b routingThreshold s results)
       \<and> (\<forall>r a. routingThreshold < score r \<and> answer r = Some a \<and> a \<noteq> []
                \<and> \<not> vetoesResult (onRecognizedRouting self) s r
            \<longrightarrow> routeResult self b routingThreshold s results r
                  = Inr (if prefix ''/'' a then [BeginDialog a] else [Send a]))"
  using assms
  by (auto simp: setBot_def disambiguate_def routeResult_def processAnswer_def Let_def
           split: list.splits)

theorem routing_dispatches_answer_witness:
  "setBot (demo helpResponse (memoryStore True)) demoBot True (7/10)
     = Some (disambiguate (demo helpResponse (memoryStore True)) demoBot (7/10))
   \<and> fst (disambiguate (demo helpResponse (memoryStore True)) demoBot (7/10) None emptyHeap
            (turn ''help me'') [])
     = [GetContext (turn ''help me''),
        EngineCall [AVal (JStr ''en''), AVal (JStr ''help me''),
                    ACtx 0 \<lparr>props = [''dialogId'' \<mapsto> JStr ''main''], plain = True\<rparr>],
        Callback helpResponse,
        Host (BeginDialog ''/Help'')]"
proof -
  let ?self = "demo helpResponse (memoryStore True)"
  let ?s = "turn ''help me''"
  have inst: "setBot ?self demoBot True (7/10) = Some (disambiguate ?self demoBot (7/10))"
    by (simp add: setBot_def)
  have nobegin: "\<not> vetoes (onBeginRouting ?self) ?s"
    by (simp add: vetoes_def demo_def)
  have utt: "messageText ?s = Some ''help me''"
    by (simp add: messageText_def turn_def)
  have good: "7/10 < score helpResponse \<and> answer helpResponse = Some ''/Help'' \<and> ''/Help'' \<noteq> []
                \<and> \<not> vetoesResult (onRecognizedRouting ?self) ?s helpResponse"
    by (simp add: helpResponse_def vetoesResult_def demo_def)
  from routing_dispatches_answer [OF inst nobegin utt, of None emptyHeap "[]"] good
  have run: "disambiguate ?self demoBot (7/10) None emptyHeap ?s []
               = recognize ?self None emptyHeap (Some ?s) (routeResult ?self demoBot (7/10) ?s [])"
    and cb: "routeResult ?self demoBot (7/10) ?s [] helpResponse
               = Inr (if prefix ''/'' ''/Help'' then [BeginDialog ''/Help''] else [Send ''/Help''])"
    by blast+
  have "fst (recognize ?self None emptyHeap (Some ?s) (routeResult ?self demoBot (7/10) ?s []))
     = [GetContext ?s,
        EngineCall [AVal (JStr ''en''), AVal (JStr ''help me''),
                    ACtx 0 \<lparr>props = [''dialogId'' \<mapsto> JStr ''main''], plain = True\<rparr>],
        Callback helpResponse,
        Host (BeginDialog ''/Help'')]"
    using cb
    by (simp add: sample_defs process_def orEmpty_def engineArgs_def recognize_def onResolved_def
          deliver_def escaping_def messageText_def getDialogId_def lookup_def
          setProperty_def deleteProperty_def alloc_def update_def emptyObject_def
          modifiedKey_def noneIntent_def Let_def)
  with inst run show ?thesis by simp
qed

text \<open>
  Claim C8 as it is written fails on its own example: for the answer \<^verbatim>\<open>/Help\<close> the
  callback begins the dialog \<^verbatim>\<open>/Help\<close>, not a dialog \<^verbatim>\<open>Help\<close>.
\<close>

theorem routing_help_dialog_counterexample:
  "routeResult (demo helpResponse (memoryStore True)) demoBot (7/10) (turn ''help me'') []
     helpResponse = Inr [BeginDialog ''/Help'']
   \<and> routeResult (demo helpResponse (memoryStore True)) demoBot (7/10) (turn ''help me'') []
     helpResponse \<noteq> Inr [BeginDialog ''Help'']"
  by (simp add: sample_defs routeResult_def vetoesResult_def processAnswer_def Let_def)

end
